theory Spec2Isabelle
  imports Main "HOL-Library.Word"
begin

unbundle bit_operations_syntax

section \<open>The socket shim of axlibc (ulib/axlibc/c/socket.c)\<close>

text \<open>
  The file socket.c holds four functions of the C library: \<open>accept4\<close>, \<open>getsockopt\<close>,
  \<open>setsockopt\<close> and \<open>sendmsg\<close>, and the control-message macros \<open>sendmsg\<close> uses.
  They are embedded here as HOL functions over an explicit system state.

  \<^item> C's \<open>int\<close> and \<open>socklen_t\<close> are 32-bit words, \<open>size_t\<close>, \<open>long\<close> and \<open>ssize_t\<close>
    are 64-bit words (the branch \<open>LONG_MAX > INT_MAX\<close> of \<open>sendmsg\<close> is the LP64 one).
  \<open>ret < 0\<close> on an \<open>int\<close> is the signed comparison \<open><s\<close>.
  \<^item> The state is a record with the field \<open>errno\<close>; everything else the kernel keeps
    (descriptors, queues, memory behind pointers handed to the primitives) is the
    record's extension, which only the external primitives act upon.
  \<^item> Everything socket.c uses and does not define (the primitives \<open>accept\<close>, \<open>fcntl\<close>
    and \<open>ax_sendmsg\<close>, the diagnostic macro \<open>unimplemented\<close>, the constants of the
    headers) is a field of the record \<open>externs\<close>, a parameter of every function.
  \<^item> A pointer that the code dereferences is modelled by what it points to:
    \<open>msg\<close> is a \<open>msghdr option\<close> (\<open>None\<close> is the null pointer, which the code tests),
    the control buffer \<open>msg_control\<close> is the list of bytes readable there, and
    \<open>optval\<close> of \<open>setsockopt\<close> is the \<open>int\<close> readable there, if any. Where the code
    reads through a pointer that does not designate enough readable memory, C gives
    no behaviour; the model's result is \<open>None\<close> there.
\<close>

type_synonym c_int = "32 word"
type_synonym socklen_t = "32 word"
type_synonym size_t = "64 word"
type_synonym ssize_t = "64 word"
type_synonym ptr = "64 word"
type_synonym byte = "8 word"

record sys_state =
  errno :: c_int

subsection \<open>struct msghdr\<close>

text \<open>
  The fields of \<open>struct msghdr\<close> as socket.c and its callers use them; \<open>msg_pad1\<close> and
  \<open>msg_pad2\<close> are the C fields \<open>__pad1\<close> and \<open>__pad2\<close>, which exist where
  \<open>LONG_MAX > INT_MAX\<close>. The declaration itself is in the header sys/socket.h.
\<close>

record msghdr =
  msg_name :: ptr
  msg_namelen :: socklen_t
  msg_iov :: ptr
  msg_iovlen :: c_int
  msg_pad1 :: c_int
  msg_control :: "byte list"
  msg_controllen :: socklen_t
  msg_pad2 :: c_int
  msg_flags :: c_int

subsection \<open>What socket.c takes from elsewhere\<close>

record 'a externs =
  LONG_MAX_gt_INT_MAX :: bool
  SOCK_CLOEXEC :: c_int
  SOCK_NONBLOCK :: c_int
  EINVAL :: c_int
  ENOMEM :: c_int
  F_SETFD :: c_int
  F_SETFL :: c_int
  FD_CLOEXEC :: c_int
  O_NONBLOCK :: c_int
  accept :: "c_int \<Rightarrow> ptr \<Rightarrow> ptr \<Rightarrow> 'a sys_state_scheme \<Rightarrow> c_int \<times> 'a sys_state_scheme"
  fcntl :: "c_int \<Rightarrow> c_int \<Rightarrow> c_int \<Rightarrow> 'a sys_state_scheme \<Rightarrow> c_int \<times> 'a sys_state_scheme"
  ax_sendmsg :: "c_int \<Rightarrow> msghdr option \<Rightarrow> c_int \<Rightarrow> 'a sys_state_scheme
                   \<Rightarrow> ssize_t \<times> 'a sys_state_scheme"
  unimplemented :: "string \<Rightarrow> c_int list \<Rightarrow> 'a sys_state_scheme \<Rightarrow> 'a sys_state_scheme"

subsection \<open>accept4\<close>

text \<open>
  \<^verbatim>\<open>
  int accept4(int fd, struct sockaddr *restrict addr, socklen_t *restrict len, int flg)
  {
      if (!flg) return accept(fd, addr, len);
      if (flg & ~(SOCK_CLOEXEC | SOCK_NONBLOCK)) { errno = EINVAL; return -1; }
      int ret = accept(fd, addr, len);
      if (ret < 0) return ret;
      if (flg & SOCK_CLOEXEC) fcntl(ret, F_SETFD, FD_CLOEXEC);
      if (flg & SOCK_NONBLOCK) fcntl(ret, F_SETFL, O_NONBLOCK);
      return ret;
  }
  \<close>
  The results of the two \<open>fcntl\<close> calls are dropped; their effect on the state is kept.
\<close>

definition accept4 ::
  "'a externs \<Rightarrow> c_int \<Rightarrow> ptr \<Rightarrow> ptr \<Rightarrow> c_int \<Rightarrow> 'a sys_state_scheme
     \<Rightarrow> c_int \<times> 'a sys_state_scheme" where
  "accept4 env fd addr len flg s =
     (if flg = 0 then accept env fd addr len s
      else if flg AND NOT (SOCK_CLOEXEC env OR SOCK_NONBLOCK env) \<noteq> 0
        then (- 1, s\<lparr>errno := EINVAL env\<rparr>)
      else
        (case accept env fd addr len s of (ret, s1) \<Rightarrow>
           if ret <s 0 then (ret, s1)
           else
             let s2 = (if flg AND SOCK_CLOEXEC env \<noteq> 0
                       then snd (fcntl env ret (F_SETFD env) (FD_CLOEXEC env) s1) else s1);
                 s3 = (if flg AND SOCK_NONBLOCK env \<noteq> 0
                       then snd (fcntl env ret (F_SETFL env) (O_NONBLOCK env) s2) else s2)
             in (ret, s3)))"

subsection \<open>getsockopt and setsockopt\<close>

text \<open>
  \<^verbatim>\<open>
  int getsockopt(int fd, int level, int optname, void *restrict optval,
                 socklen_t *restrict optlen)
  { unimplemented(); return -1; }
  \<close>
  The two output buffers are passed in and handed back with the result, so that what
  the function does to them is part of its value: it hands them back as they came.
\<close>

definition getsockopt ::
  "'a externs \<Rightarrow> c_int \<Rightarrow> c_int \<Rightarrow> c_int \<Rightarrow> byte list \<Rightarrow> socklen_t \<Rightarrow> 'a sys_state_scheme
     \<Rightarrow> c_int \<times> (byte list \<times> socklen_t) \<times> 'a sys_state_scheme" where
  "getsockopt env fd level optname optval optlen s =
     (- 1, (optval, optlen), unimplemented env [] [] s)"

text \<open>
  \<^verbatim>\<open>
  int setsockopt(int fd, int level, int optname, const void *optval, socklen_t optlen)
  {
      unimplemented("fd: %d, level: %d, optname: %d, optval: %d, optlen: %d", fd, level,
                    optname, *(int *)optval, optlen);
      return 0;
  }
  \<close>
  The argument \<open>*(int *)optval\<close> is read before the diagnostic is produced: \<open>optval\<close>
  is \<open>Some v\<close> when the pointer designates a readable \<open>int\<close> of value \<open>v\<close>, and \<open>None\<close>
  when it does not (a null pointer, say), where the read has no defined result.
\<close>

definition setsockopt ::
  "'a externs \<Rightarrow> c_int \<Rightarrow> c_int \<Rightarrow> c_int \<Rightarrow> c_int option \<Rightarrow> socklen_t \<Rightarrow> 'a sys_state_scheme
     \<Rightarrow> (c_int \<times> 'a sys_state_scheme) option" where
  "setsockopt env fd level optname optval optlen s =
     (case optval of
        None \<Rightarrow> None
      | Some v \<Rightarrow>
          Some (0, unimplemented env ''fd: %d, level: %d, optname: %d, optval: %d, optlen: %d''
                     [fd, level, optname, v, optlen] s))"

subsection \<open>The control-message macros\<close>

text \<open>
  The sizes are those of the LP64 data model, the one the branch \<open>LONG_MAX > INT_MAX\<close>
  is compiled for. \<open>struct cmsghdr\<close> is declared in sys/socket.h as the four 32-bit
  fields \<open>cmsg_len\<close>, \<open>__pad1\<close>, \<open>cmsg_level\<close>, \<open>cmsg_type\<close>, in this order on a
  little-endian machine; socket.c reads \<open>cmsg_len\<close> and writes \<open>__pad1\<close>.
\<close>

definition sizeof_int :: size_t where "sizeof_int = 4"
definition sizeof_long :: size_t where "sizeof_long = 8"
definition sizeof_size_t :: size_t where "sizeof_size_t = 8"
definition sizeof_cmsghdr :: size_t where "sizeof_cmsghdr = 16"

text \<open>
  The control buffer is a list of bytes and a \<open>struct cmsghdr *\<close> into it is the
  offset of the record. A 32-bit field is read and written in little-endian byte order.
  Reading is total: bytes beyond the end of the list count as absent (the traversal
  never reads there, see \<open>CMSG_NXTHDR_in_bounds\<close>), and a write beyond the end changes
  nothing.
\<close>

definition le32 :: "byte list \<Rightarrow> 32 word" where
  "le32 bs = foldr (\<lambda>x w. ucast x OR push_bit 8 w) bs 0"

definition load32 :: "byte list \<Rightarrow> nat \<Rightarrow> 32 word" where
  "load32 b off = le32 (take 4 (drop off b))"

definition store32 :: "byte list \<Rightarrow> nat \<Rightarrow> 32 word \<Rightarrow> byte list" where
  "store32 b off w =
     b[off := ucast w, off + 1 := ucast (drop_bit 8 w),
       off + 2 := ucast (drop_bit 16 w), off + 3 := ucast (drop_bit 24 w)]"

definition cmsg_len :: "byte list \<Rightarrow> nat \<Rightarrow> socklen_t" where
  "cmsg_len b c = load32 b c"

definition cmsg_pad1 :: "byte list \<Rightarrow> nat \<Rightarrow> c_int" where
  "cmsg_pad1 b c = load32 b (c + 4)"

definition cmsg_level :: "byte list \<Rightarrow> nat \<Rightarrow> c_int" where
  "cmsg_level b c = load32 b (c + 8)"

definition cmsg_type :: "byte list \<Rightarrow> nat \<Rightarrow> c_int" where
  "cmsg_type b c = load32 b (c + 12)"

definition set_cmsg_pad1 :: "byte list \<Rightarrow> nat \<Rightarrow> c_int \<Rightarrow> byte list" where
  "set_cmsg_pad1 b c v = store32 b (c + 4) v"

text \<open>
  \<^verbatim>\<open>
  #define __CMSG_LEN(cmsg) (((cmsg)->cmsg_len + sizeof(long) - 1) & ~(long)(sizeof(long) - 1))
  #define __CMSG_NEXT(cmsg) ((unsigned char *)(cmsg) + __CMSG_LEN(cmsg))
  #define __MHDR_END(mhdr) ((unsigned char *)(mhdr)->msg_control + (mhdr)->msg_controllen)
  #define CMSG_NXTHDR(mhdr, cmsg) ((cmsg)->cmsg_len < sizeof (struct cmsghdr) || \
      __CMSG_LEN(cmsg) + sizeof(struct cmsghdr) >= __MHDR_END(mhdr) - (unsigned char *)(cmsg) \
      ? 0 : (struct cmsghdr *)__CMSG_NEXT(cmsg))
  #define CMSG_FIRSTHDR(mhdr) ((size_t) (mhdr)->msg_controllen >= sizeof (struct cmsghdr) \
      ? (struct cmsghdr *) (mhdr)->msg_control : (struct cmsghdr *) 0)
  #define CMSG_ALIGN(len) (((len) + sizeof (size_t) - 1) & (size_t) ~(sizeof (size_t) - 1))
  #define CMSG_SPACE(len) (CMSG_ALIGN (len) + CMSG_ALIGN (sizeof (struct cmsghdr)))
  \<close>
  The macros whose C names start with two underscores carry the prefix \<open>uu_\<close> here.
  The 32-bit \<open>cmsg_len\<close> and \<open>msg_controllen\<close> are converted to \<open>size_t\<close> by the
  usual arithmetic conversions; the pointer difference in \<open>CMSG_NXTHDR\<close> is the 64-bit
  difference of the two offsets. A null result is \<open>None\<close>.
\<close>

definition uu_CMSG_LEN :: "byte list \<Rightarrow> nat \<Rightarrow> size_t" where
  "uu_CMSG_LEN b c = (ucast (cmsg_len b c) + sizeof_long - 1) AND NOT (sizeof_long - 1)"

definition uu_CMSG_NEXT :: "byte list \<Rightarrow> nat \<Rightarrow> nat" where
  "uu_CMSG_NEXT b c = c + unat (uu_CMSG_LEN b c)"

definition uu_MHDR_END :: "msghdr \<Rightarrow> size_t" where
  "uu_MHDR_END mhdr = ucast (msg_controllen mhdr)"

definition CMSG_NXTHDR :: "msghdr \<Rightarrow> nat \<Rightarrow> nat option" where
  "CMSG_NXTHDR mhdr c =
     (if ucast (cmsg_len (msg_control mhdr) c) < sizeof_cmsghdr \<or>
         uu_CMSG_LEN (msg_control mhdr) c + sizeof_cmsghdr \<ge> uu_MHDR_END mhdr - word_of_nat c
      then None else Some (uu_CMSG_NEXT (msg_control mhdr) c))"

definition CMSG_FIRSTHDR :: "msghdr \<Rightarrow> nat option" where
  "CMSG_FIRSTHDR mhdr =
     (if (ucast (msg_controllen mhdr) :: size_t) \<ge> sizeof_cmsghdr then Some 0 else None)"

definition CMSG_ALIGN :: "size_t \<Rightarrow> size_t" where
  "CMSG_ALIGN len = (len + sizeof_size_t - 1) AND NOT (sizeof_size_t - 1)"

definition CMSG_SPACE :: "size_t \<Rightarrow> size_t" where
  "CMSG_SPACE len = CMSG_ALIGN len + CMSG_ALIGN sizeof_cmsghdr"

subsection \<open>Facts about the macros that the loop of sendmsg rests on\<close>

lemma and_not_mask_shift: "(y::'a::len word) AND NOT (mask n) = push_bit n (drop_bit n y)"
  by (rule bit_word_eqI) (auto simp: bit_simps)

lemma unat_align8: "unat ((y::64 word) AND NOT (8 - 1)) = unat y div 8 * 8"
proof -
  have m: "(8 - 1 :: 64 word) = mask 3" by (simp add: mask_eq_exp_minus_1)
  have "unat y div 8 * 8 \<le> unat y" by simp
  moreover have "unat y < 2 ^ 64" using unsigned_less [of y] by simp
  ultimately have lt: "unat y div 8 * 8 < 2 ^ 64" by linarith
  have "unat (y AND NOT (mask 3)) = unat (y div 8 * 8)"
    unfolding and_not_mask_shift by (simp add: push_bit_eq_mult drop_bit_eq_div)
  also have "\<dots> = unat y div 8 * 8"
    using lt by (simp add: unat_word_ariths unat_div)
  finally show ?thesis unfolding m .
qed

lemma unat_ucast_32_64: "unat (ucast (l::32 word) :: 64 word) = unat l"
  using unsigned_less [of l, where 'a = nat]
  by (simp add: unsigned_ucast_eq take_bit_nat_eq_self)

lemma unat_32_bound: "unat (l::32 word) < 4294967296"
  using unsigned_less [of l, where 'a = nat] by simp

lemma unat_add7: "unat ((ucast (l::32 word) :: 64 word) + 8 - 1) = unat l + 7"
proof -
  have "(ucast l :: 64 word) + 8 - 1 = ucast l + 7" by simp
  moreover have "unat ((ucast l :: 64 word) + 7) = unat l + 7"
    using unat_32_bound [of l] by (simp add: unat_word_ariths unat_ucast_32_64)
  ultimately show ?thesis by (simp add: add.commute)
qed

lemma unat_CMSG_LEN: "unat (uu_CMSG_LEN b c) = (unat (cmsg_len b c) + 7) div 8 * 8"
  unfolding uu_CMSG_LEN_def sizeof_long_def
  by (simp only: unat_align8 unat_add7)

lemma le32_Nil: "le32 [] = 0"
  by (simp add: le32_def)

lemma length_store32 [simp]: "length (store32 b off w) = length b"
  by (simp add: store32_def)

lemma length_set_cmsg_pad1 [simp]: "length (set_cmsg_pad1 b c v) = length b"
  by (simp add: set_cmsg_pad1_def)

lemma cmsg_len_short: "length b \<le> c \<Longrightarrow> cmsg_len b c = 0"
  by (simp add: cmsg_len_def load32_def le32_Nil)

lemma CMSG_NXTHDR_advances:
  assumes "CMSG_NXTHDR mhdr c = Some c'"
  shows "c < c' \<and> c < length (msg_control mhdr)"
proof -
  let ?b = "msg_control mhdr"
  from assms have ge: "\<not> (ucast (cmsg_len ?b c) :: size_t) < sizeof_cmsghdr"
    and c': "c' = c + unat (uu_CMSG_LEN ?b c)"
    by (auto simp: CMSG_NXTHDR_def uu_CMSG_NEXT_def split: if_splits)
  from ge have l16: "16 \<le> unat (cmsg_len ?b c)"
    by (simp add: sizeof_cmsghdr_def word_less_nat_alt unat_ucast_32_64)
  then have "c < length ?b"
    using cmsg_len_short [of ?b c] by (cases "c < length ?b") auto
  moreover have "0 < unat (uu_CMSG_LEN ?b c)"
    using l16 by (simp add: unat_CMSG_LEN)
  ultimately show ?thesis using c' by simp
qed

subsection \<open>sendmsg\<close>

text \<open>
  \<^verbatim>\<open>
  ssize_t sendmsg(int fd, const struct msghdr *msg, int flags)
  {
  #if LONG_MAX > INT_MAX
      struct msghdr h;
      struct cmsghdr chbuf[CMSG_SPACE(255*sizeof(int))/sizeof(struct cmsghdr)+1], *c;
      if (msg) {
          h = *msg;
          h.__pad1 = h.__pad2 = 0;
          msg = &h;
          if (h.msg_controllen) {
              if (h.msg_controllen > sizeof chbuf) { errno = ENOMEM; return -1; }
              memcpy(chbuf, h.msg_control, h.msg_controllen);
              h.msg_control = chbuf;
              for (c=CMSG_FIRSTHDR(&h); c; c=CMSG_NXTHDR(&h,c))
                  c->__pad1 = 0;
          }
      }
  #endif
      return ax_sendmsg(fd, msg, flags);
  }
  \<close>
\<close>

definition chbuf_elems :: size_t where
  "chbuf_elems = CMSG_SPACE (255 * sizeof_int) div sizeof_cmsghdr + 1"

definition sizeof_chbuf :: size_t where
  "sizeof_chbuf = chbuf_elems * sizeof_cmsghdr"

text \<open>
  \<open>memcpy(chbuf, src, n)\<close> reads \<open>n\<close> bytes at \<open>src\<close>: the contents of the first \<open>n\<close>
  bytes of \<open>chbuf\<close> afterwards, or \<open>None\<close> when fewer than \<open>n\<close> bytes are readable there.
\<close>

definition memcpy :: "byte list \<Rightarrow> nat \<Rightarrow> byte list option" where
  "memcpy src n = (if n \<le> length src then Some (take n src) else None)"

text \<open>
  The body of the \<open>for\<close> loop and its step, from a record \<open>c\<close> that is not null:
  \<open>c->__pad1 = 0\<close>, then \<open>c = CMSG_NXTHDR(&h, c)\<close>. The loop ends: a next record lies
  strictly further in the buffer than the current one.
\<close>

function clear_pads :: "msghdr \<Rightarrow> nat \<Rightarrow> msghdr" where
  "clear_pads h c =
     (let h' = h\<lparr>msg_control := set_cmsg_pad1 (msg_control h) c 0\<rparr>
      in case CMSG_NXTHDR h' c of None \<Rightarrow> h' | Some c' \<Rightarrow> clear_pads h' c')"
  by pat_completeness auto
termination
proof (relation "measure (\<lambda>(h, c). length (msg_control h) - c)")
  show "wf (measure (\<lambda>(h, c). length (msg_control h) - c))" by simp
next
  fix h :: msghdr and c h' c'
  assume "h' = h\<lparr>msg_control := set_cmsg_pad1 (msg_control h) c 0\<rparr>"
    and "CMSG_NXTHDR h' c = Some c'"
  then show "((h', c'), (h, c)) \<in> measure (\<lambda>(h, c). length (msg_control h) - c)"
    using CMSG_NXTHDR_advances [of h' c c'] by auto
qed

declare clear_pads.simps [simp del]

definition for_each_cmsg :: "msghdr \<Rightarrow> msghdr" where
  "for_each_cmsg h = (case CMSG_FIRSTHDR h of None \<Rightarrow> h | Some c \<Rightarrow> clear_pads h c)"

definition sendmsg ::
  "'a externs \<Rightarrow> c_int \<Rightarrow> msghdr option \<Rightarrow> c_int \<Rightarrow> 'a sys_state_scheme
     \<Rightarrow> (ssize_t \<times> 'a sys_state_scheme) option" where
  "sendmsg env fd msg flags s =
     (if LONG_MAX_gt_INT_MAX env then
        (case msg of
           None \<Rightarrow> Some (ax_sendmsg env fd None flags s)
         | Some m \<Rightarrow>
             let h = m\<lparr>msg_pad1 := 0, msg_pad2 := 0\<rparr> in
             if msg_controllen h \<noteq> 0 then
               if (ucast (msg_controllen h) :: size_t) > sizeof_chbuf
               then Some (- 1, s\<lparr>errno := ENOMEM env\<rparr>)
               else
                 (case memcpy (msg_control h) (unat (msg_controllen h)) of
                    None \<Rightarrow> None
                  | Some chbuf \<Rightarrow>
                      Some (ax_sendmsg env fd
                              (Some (for_each_cmsg (h\<lparr>msg_control := chbuf\<rparr>))) flags s))
             else Some (ax_sendmsg env fd (Some h) flags s))
      else Some (ax_sendmsg env fd msg flags s))"

subsection \<open>Test doubles\<close>

text \<open>
  A state that records what the external primitives were asked to do, and an
  environment of primitives that record their calls in it. The listening descriptor 3
  has a connection pending, which \<open>accept\<close> answers with descriptor 7; every \<open>fcntl\<close>
  fails; \<open>ax_sendmsg\<close> reports a length of 0. The constants have the values of the
  Linux headers.
\<close>

record spy_state = sys_state +
  accept_calls :: "c_int list"
  fcntl_calls :: "(c_int \<times> c_int \<times> c_int) list"
  ax_sendmsg_calls :: "(c_int \<times> msghdr option \<times> c_int) list"
  diagnostics :: "(string \<times> c_int list) list"

text \<open>
  Modelled from the spec: the macro \<open>unimplemented\<close>, which socket.c uses and whose
  definition is not among the sources. The spec describes it as emitting a diagnostic
  trace of the call's arguments and performing no other state change.
\<close>

definition trace_unimplemented ::
  "string \<Rightarrow> c_int list \<Rightarrow> 'b spy_state_scheme \<Rightarrow> 'b spy_state_scheme" where
  "trace_unimplemented fmt args s = s\<lparr>diagnostics := diagnostics s @ [(fmt, args)]\<rparr>"

definition spy_env :: "unit spy_state_ext externs" where
  "spy_env =
     \<lparr> LONG_MAX_gt_INT_MAX = True,
       SOCK_CLOEXEC = 0x80000, SOCK_NONBLOCK = 0x800,
       EINVAL = 22, ENOMEM = 12,
       F_SETFD = 2, F_SETFL = 4, FD_CLOEXEC = 1, O_NONBLOCK = 0x800,
       accept = (\<lambda>fd addr len s.
          (if fd = 3 then 7 else - 1, s\<lparr>accept_calls := accept_calls s @ [fd]\<rparr>)),
       fcntl = (\<lambda>fd cmd arg s. (- 1, s\<lparr>fcntl_calls := fcntl_calls s @ [(fd, cmd, arg)]\<rparr>)),
       ax_sendmsg = (\<lambda>fd msg flags s.
          (0, s\<lparr>ax_sendmsg_calls := ax_sendmsg_calls s @ [(fd, msg, flags)]\<rparr>)),
       unimplemented = trace_unimplemented \<rparr>"

definition spy_init :: spy_state where
  "spy_init = \<lparr> errno = 0, accept_calls = [], fcntl_calls = [], ax_sendmsg_calls = [],
                diagnostics = [] \<rparr>"

definition msg0 :: msghdr where
  "msg0 = \<lparr> msg_name = 0, msg_namelen = 0, msg_iov = 0x1000, msg_iovlen = 1, msg_pad1 = 7,
           msg_control = [], msg_controllen = 0, msg_pad2 = 9, msg_flags = 0 \<rparr>"

definition msg_big :: msghdr where
  "msg_big = msg0\<lparr>msg_control := replicate 1057 0, msg_controllen := 1057\<rparr>"

text \<open>
  Two descriptor-passing messages: one record of level 1 and type 1 carrying 253
  descriptors (a payload of 1012 bytes, a declared length of 1028), and one sized for
  400 descriptors (a payload of 1600 bytes, a declared length of 1616).
\<close>

definition msg253 :: msghdr where
  "msg253 = msg0\<lparr>msg_control := [4, 4, 0, 0, 5, 5, 5, 5, 1, 0, 0, 0, 1, 0, 0, 0] @ replicate 1016 0,
                 msg_controllen := 1032\<rparr>"

definition msg400 :: msghdr where
  "msg400 = msg0\<lparr>msg_control := [80, 6, 0, 0, 5, 5, 5, 5, 1, 0, 0, 0, 1, 0, 0, 0] @ replicate 1600 0,
                 msg_controllen := 1616\<rparr>"

section \<open>Properties\<close>

subsection \<open>The capacity of the scratch buffer\<close>

lemma sizeof_chbuf_eq: "sizeof_chbuf = 1056"
  by (simp add: sizeof_chbuf_def chbuf_elems_def CMSG_SPACE_def CMSG_ALIGN_def sizeof_int_def
      sizeof_size_t_def sizeof_cmsghdr_def)

lemma CMSG_SPACE_253: "CMSG_SPACE (253 * sizeof_int) = 1032"
  by (simp add: CMSG_SPACE_def CMSG_ALIGN_def sizeof_int_def sizeof_size_t_def sizeof_cmsghdr_def)

lemma CMSG_SPACE_400: "CMSG_SPACE (400 * sizeof_int) = 1616"
  by (simp add: CMSG_SPACE_def CMSG_ALIGN_def sizeof_int_def sizeof_size_t_def sizeof_cmsghdr_def)

text \<open>
  C1. Where \<open>LONG_MAX > INT_MAX\<close> (the platform that repacks), a message whose
  \<open>msg_controllen\<close> is greater than \<open>sizeof chbuf\<close> makes \<open>sendmsg\<close> return -1 with
  \<open>errno\<close> set to \<open>ENOMEM\<close> and nothing else changed in the state, whatever the
  transmit primitive \<open>ax_sendmsg\<close> is: the primitive is not invoked.
\<close>

theorem sendmsg_oversized_control:
  assumes "LONG_MAX_gt_INT_MAX env" and "sizeof_chbuf < ucast (msg_controllen m)"
  shows "sendmsg (env\<lparr>ax_sendmsg := prim\<rparr>) fd (Some m) flags s
           = Some (- 1, s\<lparr>errno := ENOMEM env\<rparr>)"
proof -
  from assms(2) have "msg_controllen m \<noteq> 0" by auto
  with assms show ?thesis by (simp add: sendmsg_def)
qed

theorem sendmsg_oversized_control_witness:
  "LONG_MAX_gt_INT_MAX spy_env \<and> sizeof_chbuf < ucast (msg_controllen msg_big) \<and>
   sendmsg spy_env 3 (Some msg_big) 0 spy_init = Some (- 1, spy_init\<lparr>errno := 12\<rparr>) \<and>
   ax_sendmsg_calls (snd (the (sendmsg spy_env 3 (Some msg_big) 0 spy_init))) = []"
proof -
  have a: "LONG_MAX_gt_INT_MAX spy_env" by (simp add: spy_env_def)
  have b: "sizeof_chbuf < ucast (msg_controllen msg_big)"
    by (simp add: sizeof_chbuf_eq msg_big_def)
  have "sendmsg (spy_env\<lparr>ax_sendmsg := ax_sendmsg spy_env\<rparr>) 3 (Some msg_big) 0 spy_init
          = Some (- 1, spy_init\<lparr>errno := ENOMEM spy_env\<rparr>)"
    by (rule sendmsg_oversized_control [OF a b])
  then show ?thesis using a b by (simp add: spy_env_def spy_init_def)
qed

text \<open>
  C4. \<open>sizeof chbuf\<close> is 1056 bytes: 66 elements of 16 bytes, from
  \<open>CMSG_SPACE(255 * sizeof(int)) = 1040\<close>. A control block of one record carrying 253
  descriptors takes \<open>CMSG_SPACE(253 * sizeof(int)) = 1032\<close> bytes, which passes the size
  check of \<open>sendmsg\<close>: the block is copied, traversed and handed to \<open>ax_sendmsg\<close>. A
  block sized for 400 descriptors takes 1616 bytes and is refused with \<open>ENOMEM\<close>.
\<close>

theorem chbuf_capacity:
  assumes "LONG_MAX_gt_INT_MAX env"
    and "msg_controllen m = ucast (CMSG_SPACE (253 * sizeof_int))"
    and "unat (msg_controllen m) \<le> length (msg_control m)"
    and "msg_controllen m' = ucast (CMSG_SPACE (400 * sizeof_int))"
  shows "sizeof_chbuf = 1056 \<and>
         CMSG_SPACE (253 * sizeof_int) = 1032 \<and> CMSG_SPACE (253 * sizeof_int) \<le> sizeof_chbuf \<and>
         CMSG_SPACE (400 * sizeof_int) = 1616 \<and> sizeof_chbuf < CMSG_SPACE (400 * sizeof_int) \<and>
         sendmsg env fd (Some m) flags s =
           Some (ax_sendmsg env fd
                  (Some (for_each_cmsg (m\<lparr>msg_pad1 := 0, msg_pad2 := 0,
                                          msg_control := take 1032 (msg_control m)\<rparr>))) flags s) \<and>
         sendmsg env fd (Some m') flags s = Some (- 1, s\<lparr>errno := ENOMEM env\<rparr>)"
  using assms
  by (simp add: sendmsg_def memcpy_def sizeof_chbuf_eq CMSG_SPACE_253 CMSG_SPACE_400)

theorem chbuf_capacity_witness:
  "LONG_MAX_gt_INT_MAX spy_env \<and>
   msg_controllen msg253 = ucast (CMSG_SPACE (253 * sizeof_int)) \<and>
   unat (msg_controllen msg253) \<le> length (msg_control msg253) \<and>
   msg_controllen msg400 = ucast (CMSG_SPACE (400 * sizeof_int)) \<and>
   sendmsg spy_env 3 (Some msg253) 0 spy_init =
     Some (ax_sendmsg spy_env 3
             (Some (for_each_cmsg (msg253\<lparr>msg_pad1 := 0, msg_pad2 := 0,
                                     msg_control := take 1032 (msg_control msg253)\<rparr>))) 0 spy_init) \<and>
   sendmsg spy_env 3 (Some msg400) 0 spy_init = Some (- 1, spy_init\<lparr>errno := 12\<rparr>)"
proof -
  have a: "LONG_MAX_gt_INT_MAX spy_env" by (simp add: spy_env_def)
  have b: "msg_controllen msg253 = ucast (CMSG_SPACE (253 * sizeof_int))"
    by (simp add: msg253_def CMSG_SPACE_253)
  have c: "unat (msg_controllen msg253) \<le> length (msg_control msg253)"
    by (simp add: msg253_def)
  have d: "msg_controllen msg400 = ucast (CMSG_SPACE (400 * sizeof_int))"
    by (simp add: msg400_def CMSG_SPACE_400)
  have e: "ENOMEM spy_env = 12" by (simp add: spy_env_def)
  from chbuf_capacity [OF a b c d, of 3 0 spy_init] show ?thesis
    using a b c d e by simp
qed

subsection \<open>accept4\<close>

text \<open>
  C5. When \<open>flg\<close> has a bit outside \<open>SOCK_CLOEXEC | SOCK_NONBLOCK\<close>, \<open>accept4\<close> returns
  -1 with \<open>errno\<close> set to \<open>EINVAL\<close> and the state otherwise as it was, whatever the
  primitives \<open>accept\<close> and \<open>fcntl\<close> are: neither is invoked, so the listening
  descriptor and its queue are untouched.
\<close>

theorem accept4_rejects_unknown_flags:
  assumes "flg AND NOT (SOCK_CLOEXEC env OR SOCK_NONBLOCK env) \<noteq> 0"
  shows "accept4 (env\<lparr>accept := acc, fcntl := fc\<rparr>) fd addr len flg s
           = (- 1, s\<lparr>errno := EINVAL env\<rparr>)"
proof -
  from assms have "flg \<noteq> 0" by auto
  with assms show ?thesis by (simp add: accept4_def)
qed

theorem accept4_rejects_unknown_flags_witness:
  "(0x801 :: c_int) AND NOT (SOCK_CLOEXEC spy_env OR SOCK_NONBLOCK spy_env) \<noteq> 0 \<and>
   accept4 spy_env 3 0 0 0x801 spy_init = (- 1, spy_init\<lparr>errno := 22\<rparr>) \<and>
   accept_calls (snd (accept4 spy_env 3 0 0 0x801 spy_init)) = []"
proof -
  have h: "(0x801 :: c_int) AND NOT (SOCK_CLOEXEC spy_env OR SOCK_NONBLOCK spy_env) \<noteq> 0"
    by (simp add: spy_env_def)
  have "accept4 (spy_env\<lparr>accept := accept spy_env, fcntl := fcntl spy_env\<rparr>) 3 0 0 0x801 spy_init
          = (- 1, spy_init\<lparr>errno := EINVAL spy_env\<rparr>)"
    by (rule accept4_rejects_unknown_flags [OF h])
  then show ?thesis
    using h by (simp add: spy_env_def spy_init_def)
qed

text \<open>
  C6. When \<open>flg\<close> is not zero and has no bit outside \<open>SOCK_CLOEXEC | SOCK_NONBLOCK\<close>:
  if \<open>accept\<close> fails (a negative result), \<open>accept4\<close> returns what \<open>accept\<close> returned,
  result and state; if \<open>accept\<close> succeeds, \<open>accept4\<close> returns the accepted descriptor,
  whatever \<open>fcntl\<close> is and returns.
\<close>

theorem accept4_best_effort:
  assumes "flg \<noteq> 0" and "flg AND NOT (SOCK_CLOEXEC env OR SOCK_NONBLOCK env) = 0"
  shows "if fst (accept env fd addr len s) <s 0
         then accept4 (env\<lparr>fcntl := fc\<rparr>) fd addr len flg s = accept env fd addr len s
         else fst (accept4 (env\<lparr>fcntl := fc\<rparr>) fd addr len flg s)
                = fst (accept env fd addr len s)"
  using assms by (simp add: accept4_def Let_def split: prod.splits)

theorem accept4_best_effort_witness:
  "(0x80800 :: c_int) \<noteq> 0 \<and>
   (0x80800 :: c_int) AND NOT (SOCK_CLOEXEC spy_env OR SOCK_NONBLOCK spy_env) = 0 \<and>
   \<not> fst (accept spy_env 3 0 0 spy_init) <s 0 \<and>
   fst (accept4 spy_env 3 0 0 0x80800 spy_init) = 7 \<and>
   fcntl_calls (snd (accept4 spy_env 3 0 0 0x80800 spy_init)) = [(7, 2, 1), (7, 4, 0x800)] \<and>
   fst (accept spy_env 4 0 0 spy_init) <s 0 \<and>
   accept4 spy_env 4 0 0 0x80800 spy_init = accept spy_env 4 0 0 spy_init"
proof -
  have a: "(0x80800 :: c_int) \<noteq> 0" by simp
  have b: "(0x80800 :: c_int) AND NOT (SOCK_CLOEXEC spy_env OR SOCK_NONBLOCK spy_env) = 0"
    by (simp add: spy_env_def)
  have e: "spy_env\<lparr>fcntl := fcntl spy_env\<rparr> = spy_env" by simp
  have ok: "\<not> fst (accept spy_env 3 0 0 spy_init) <s 0"
    and bad: "fst (accept spy_env 4 0 0 spy_init) <s 0"
    by (simp_all add: spy_env_def word_sless_alt)
  from accept4_best_effort [OF a b, of 3 0 0 spy_init "fcntl spy_env"] ok
  have 1: "fst (accept4 spy_env 3 0 0 0x80800 spy_init) = fst (accept spy_env 3 0 0 spy_init)"
    unfolding e by simp
  from accept4_best_effort [OF a b, of 4 0 0 spy_init "fcntl spy_env"] bad
  have 2: "accept4 spy_env 4 0 0 0x80800 spy_init = accept spy_env 4 0 0 spy_init"
    unfolding e by simp
  have 3: "fcntl_calls (snd (accept4 spy_env 3 0 0 0x80800 spy_init)) = [(7, 2, 1), (7, 4, 0x800)]"
    by (simp add: accept4_def spy_env_def spy_init_def word_sless_alt)
  have 4: "fst (accept spy_env 3 0 0 spy_init) = 7" by (simp add: spy_env_def)
  show ?thesis using a b ok bad 1 2 3 4 by simp
qed

subsection \<open>sendmsg without control data\<close>

text \<open>
  C7, as the code has it. For a message whose \<open>msg_controllen\<close> is zero, \<open>sendmsg\<close>
  invokes \<open>ax_sendmsg\<close> once, with the same descriptor and flags, and returns its result
  unchanged. Where \<open>LONG_MAX > INT_MAX\<close> the message handed over is the caller's with
  the two reserved fields \<open>__pad1\<close> and \<open>__pad2\<close> set to zero and every other field as
  it was; elsewhere it is the caller's message itself.
\<close>

theorem sendmsg_no_control:
  assumes "msg_controllen m = 0"
  shows "sendmsg env fd (Some m) flags s =
           Some (ax_sendmsg env fd
                   (Some (if LONG_MAX_gt_INT_MAX env
                          then m\<lparr>msg_pad1 := 0, msg_pad2 := 0\<rparr> else m))
                   flags s)"
  using assms by (simp add: sendmsg_def)

theorem sendmsg_no_control_witness:
  "msg_controllen msg0 = 0 \<and>
   sendmsg spy_env 3 (Some msg0) 0 spy_init =
     Some (0, spy_init\<lparr>ax_sendmsg_calls := [(3, Some (msg0\<lparr>msg_pad1 := 0, msg_pad2 := 0\<rparr>), 0)]\<rparr>)"
proof -
  have a: "msg_controllen msg0 = 0" by (simp add: msg0_def)
  show ?thesis
    using a sendmsg_no_control [OF a, of spy_env 3 0 spy_init]
    by (simp add: spy_env_def spy_init_def)
qed

text \<open>
  C7 as stated fails: the message \<open>msg0\<close> has no control data and the reserved fields 7
  and 9; what \<open>ax_sendmsg\<close> receives is not \<open>msg0\<close> but \<open>msg0\<close> with both fields zero.
\<close>

theorem sendmsg_no_control_clears_padding:
  "msg_controllen msg0 = 0 \<and>
   sendmsg spy_env 3 (Some msg0) 0 spy_init
     \<noteq> Some (ax_sendmsg spy_env 3 (Some msg0) 0 spy_init) \<and>
   ax_sendmsg_calls (snd (the (sendmsg spy_env 3 (Some msg0) 0 spy_init)))
     = [(3, Some (msg0\<lparr>msg_pad1 := 0, msg_pad2 := 0\<rparr>), 0)] \<and>
   msg_pad1 msg0 = 7 \<and> msg_pad2 msg0 = 9"
  by (simp add: sendmsg_def spy_env_def spy_init_def msg0_def)

text \<open>
  C10. With a null \<open>msg\<close>, \<open>sendmsg\<close> is the call \<open>ax_sendmsg(fd, NULL, flags)\<close>: no
  check, no copy, no traversal, and the primitive's result is the result.
\<close>

theorem sendmsg_null_msg:
  "sendmsg env fd None flags s = Some (ax_sendmsg env fd None flags s)"
  by (simp add: sendmsg_def)

subsection \<open>The option stubs\<close>

text \<open>
  C8, as the code has it. \<open>getsockopt\<close> returns -1 and hands \<open>optval\<close> and \<open>optlen\<close>
  back as they came; all it does to the state is the diagnostic \<open>unimplemented()\<close>,
  without arguments. It assigns no error code: with the diagnostic as the spec describes
  it, \<open>errno\<close> after the call is \<open>errno\<close> before it.
\<close>

theorem getsockopt_stub:
  "getsockopt env fd level optname optval optlen s
     = (- 1, (optval, optlen), unimplemented env [] [] s) \<and>
   getsockopt (env'\<lparr>unimplemented := trace_unimplemented\<rparr>) fd level optname optval optlen s'
     = (- 1, (optval, optlen), s'\<lparr>diagnostics := diagnostics s' @ [([], [])]\<rparr>) \<and>
   errno (snd (snd (getsockopt (env'\<lparr>unimplemented := trace_unimplemented\<rparr>)
                      fd level optname optval optlen s'))) = errno s'"
  by (simp add: getsockopt_def trace_unimplemented_def)

text \<open>
  C8 as stated fails: called with \<open>errno\<close> 0, \<open>getsockopt\<close> returns -1 and leaves
  \<open>errno\<close> 0, which is no error code.
\<close>

theorem getsockopt_sets_no_error_code:
  "fst (getsockopt spy_env 3 1 2 [1, 2, 3, 4] 4 spy_init) = - 1 \<and>
   errno spy_init = 0 \<and>
   errno (snd (snd (getsockopt spy_env 3 1 2 [1, 2, 3, 4] 4 spy_init))) = 0"
  by (simp add: getsockopt_def spy_env_def spy_init_def trace_unimplemented_def)

text \<open>
  C9, as the code has it. For every call whose \<open>optval\<close> designates a readable \<open>int\<close>,
  \<open>setsockopt\<close> returns 0, and all it does to the state is the diagnostic
  \<open>unimplemented\<close> with the format and the five arguments \<open>fd\<close>, \<open>level\<close>, \<open>optname\<close>,
  \<open>*(int *)optval\<close> and \<open>optlen\<close>; with the diagnostic as the spec describes it, the
  state afterwards is the state before with that one trace entry added.
\<close>

theorem setsockopt_stub:
  "setsockopt env fd level optname (Some v) optlen s
     = Some (0, unimplemented env ''fd: %d, level: %d, optname: %d, optval: %d, optlen: %d''
                  [fd, level, optname, v, optlen] s) \<and>
   setsockopt (env'\<lparr>unimplemented := trace_unimplemented\<rparr>) fd level optname (Some v) optlen s'
     = Some (0, s'\<lparr>diagnostics := diagnostics s' @
                  [(''fd: %d, level: %d, optname: %d, optval: %d, optlen: %d'',
                    [fd, level, optname, v, optlen])]\<rparr>)"
  by (simp add: setsockopt_def trace_unimplemented_def)

text \<open>
  C9 as stated fails: with a null \<open>optval\<close> the argument \<open>*(int *)optval\<close> of the
  diagnostic has no value, and the call has no result.
\<close>

theorem setsockopt_null_optval:
  "setsockopt spy_env 3 1 2 None 0 spy_init = None"
  by (simp add: setsockopt_def)

end
